theory Spec2Isabelle
  imports Complex_Main "HOL-Library.Word"
begin

section \<open>Machine types\<close>

type_synonym uint32 = "32 word"
type_synonym uint64 = "64 word"

text \<open>
  Go's \<open>int\<close> on the 64-bit targets of this program, and \<open>time.Duration\<close>, an \<open>int64\<close>
  count of nanoseconds. Both are 64-bit words; comparisons on them are the signed ones
  (\<open><s\<close>, \<open>\<le>s\<close>).
\<close>

type_synonym go_int = "64 word"
type_synonym Duration = "64 word"

text \<open>\<open>time.Time\<close>, as nanoseconds since the epoch. The program only stores and prints it.\<close>

type_synonym Time = int

definition Millisecond :: Duration where
  "Millisecond = 1000000"

definition Second :: Duration where
  "Second = 1000 * Millisecond"

section \<open>float64\<close>

text \<open>
  The program's floating-point values all come from unsigned integers, the constants
  \<open>0\<close>, \<open>100\<close> and \<open>1024*1024*1024\<close>, division and multiplication. That fragment of IEEE 754
  binary64 has no negative value: a value is NaN, plus infinity, or a non-negative
  rational that binary64 represents. Every operation rounds its exact result to the
  nearest representable value, ties to even.
\<close>

datatype float64 = NaN | PosInf | Finite rat

fun bitlen :: "nat \<Rightarrow> nat" where
  "bitlen n = (if n = 0 then 0 else Suc (bitlen (n div 2)))"

declare bitlen.simps [simp del]

text \<open>
  The exponent \<open>e\<close> with \<open>2^e \<le> x < 2^(e+1)\<close>, for a positive rational \<open>x\<close>: from the
  length in bits of the integer part of \<open>x\<close>, or of \<open>1/x\<close> rounded up when \<open>x\<close> is below 1.
\<close>

definition binade :: "rat \<Rightarrow> int" where
  "binade x =
     (if 1 \<le> x then int (bitlen (nat \<lfloor>x\<rfloor>)) - 1
      else - int (bitlen (nat (\<lceil>1 / x\<rceil> - 1))))"

definition round_even :: "rat \<Rightarrow> int" where
  "round_even x =
     (let f = \<lfloor>x\<rfloor>; d = x - of_int f
      in if d < 1 / 2 then f
         else if 1 / 2 < d then f + 1
         else if even f then f else f + 1)"

text \<open>
  Rounding a non-negative rational to binary64: 53 significant bits, exponents from
  \<open>-1022\<close> (below it the spacing stays that of the subnormals) to \<open>1023\<close> (above it the
  result is infinite).
\<close>

definition round64 :: "rat \<Rightarrow> float64" where
  "round64 x =
     (if x = 0 then Finite 0
      else let e = max (binade x) (- 1022);
               u = 2 powi (e - 52);
               r = of_int (round_even (x / u)) * u
           in if 2 powi 1024 \<le> r then PosInf else Finite r)"

text \<open>The conversion \<open>float64(x)\<close> of a \<open>uint64\<close>.\<close>

definition float64_of_uint64 :: "uint64 \<Rightarrow> float64" where
  "float64_of_uint64 w = round64 (of_nat (unat w))"

text \<open>
  Division. Go's floating-point division by zero does not panic: it yields NaN for
  \<open>0 / 0\<close> and an infinity otherwise.
\<close>

fun fdiv :: "float64 \<Rightarrow> float64 \<Rightarrow> float64" where
  "fdiv NaN _ = NaN"
| "fdiv _ NaN = NaN"
| "fdiv PosInf PosInf = NaN"
| "fdiv PosInf (Finite y) = PosInf"
| "fdiv (Finite x) PosInf = Finite 0"
| "fdiv (Finite x) (Finite y) =
     (if y = 0 then (if x = 0 then NaN else PosInf) else round64 (x / y))"

fun fmul :: "float64 \<Rightarrow> float64 \<Rightarrow> float64" where
  "fmul NaN _ = NaN"
| "fmul _ NaN = NaN"
| "fmul PosInf PosInf = PosInf"
| "fmul PosInf (Finite y) = (if y = 0 then NaN else PosInf)"
| "fmul (Finite x) PosInf = (if x = 0 then NaN else PosInf)"
| "fmul (Finite x) (Finite y) = round64 (x * y)"

section \<open>Statistics records\<close>

record CPUStats =
  cpu_Usage :: float64
  cpu_Cores :: "float64 list"
  cpu_LoadAvg :: "float64 \<times> float64 \<times> float64"
  cpu_Temp :: float64

record SwapStats =
  swap_Total :: uint64
  swap_Used :: uint64
  swap_Usage :: float64

record MemoryStats =
  Total :: uint64
  Used :: uint64
  Available :: uint64
  Usage :: float64
  Swap :: SwapStats

record GPUStats =
  gpu_Usage :: float64
  gpu_MemoryUsage :: float64
  gpu_MemoryUsed :: uint64
  gpu_MemoryTotal :: uint64
  gpu_Temp :: float64

record SystemStats =
  CPU :: CPUStats
  Memory :: MemoryStats
  GPU :: GPUStats
  Uptime :: Duration

text \<open>The zero values \<open>CPUStats{}\<close>, \<open>SwapStats{}\<close>, \<open>MemoryStats{}\<close> and \<open>GPUStats{}\<close>.\<close>

definition zero_CPUStats :: CPUStats where
  "zero_CPUStats =
     \<lparr>cpu_Usage = Finite 0, cpu_Cores = [],
      cpu_LoadAvg = (Finite 0, Finite 0, Finite 0), cpu_Temp = Finite 0\<rparr>"

definition zero_SwapStats :: SwapStats where
  "zero_SwapStats = \<lparr>swap_Total = 0, swap_Used = 0, swap_Usage = Finite 0\<rparr>"

definition zero_MemoryStats :: MemoryStats where
  "zero_MemoryStats =
     \<lparr>Total = 0, Used = 0, Available = 0, Usage = Finite 0, Swap = zero_SwapStats\<rparr>"

definition zero_GPUStats :: GPUStats where
  "zero_GPUStats =
     \<lparr>gpu_Usage = Finite 0, gpu_MemoryUsage = Finite 0, gpu_MemoryUsed = 0,
      gpu_MemoryTotal = 0, gpu_Temp = Finite 0\<rparr>"

section \<open>The operating system\<close>

text \<open>The struct \<open>vm_statistics64\<close> of \<open>mach/vm_statistics.h\<close>, as \<open>system.go\<close> declares it.\<close>

record vm_statistics64 =
  FreeCount :: uint32
  ActiveCount :: uint32
  InactiveCount :: uint32
  WireCount :: uint32
  ZeroFillCount :: uint64
  Reactivations :: uint64
  Pageins :: uint64
  Pageouts :: uint64
  Faults :: uint64
  CowFaults :: uint64
  Lookups :: uint64
  Hits :: uint64
  Purges :: uint64
  PurgeableCount :: uint32
  SpeculativeCount :: uint32
  Decompressions :: uint64
  Compressions :: uint64
  Swapins :: uint64
  Swapouts :: uint64
  CompressorPageCount :: uint32
  ThrottledCount :: uint32
  ExternalPageCount :: uint32
  InternalPageCount :: uint32
  TotalUncompressedPagesInCompressor :: uint64

text \<open>
  Go's \<open>error\<close> values of this program: the error of a failed \<open>sysctl\<close> (with its text),
  the error \<open>GetVMStatisticsCGO\<close> builds from a non-zero \<open>kern_return_t\<close>, and
  \<open>fmt.Errorf("<prefix>: %w", err)\<close>.
\<close>

datatype error =
    SysctlError string
  | HostStatisticsError "32 word"
  | Errorf string error

text \<open>
  What the program reads from the system at one moment: the answer of
  \<open>unix.SysctlUint64\<close> for each name, and what the C function \<open>getVMStats\<close> returns and
  writes into its argument.
\<close>

record sysenv =
  SysctlUint64 :: "string \<Rightarrow> error + uint64"
  getVMStats :: "32 word \<times> vm_statistics64"

text \<open>
  A call either returns or panics. The only panic of this program is Go's
  \<open>integer divide by zero\<close>.
\<close>

datatype 'a outcome = Panic | Returns 'a

section \<open>Collecting the memory statistics (\<open>system.go\<close>)\<close>

text \<open>
  \<open>GetVMStatisticsCGO\<close> copies the C struct field by field into the Go struct of the same
  layout, after the check of the return code.
\<close>

definition GetVMStatisticsCGO :: "sysenv \<Rightarrow> error + vm_statistics64" where
  "GetVMStatisticsCGO env =
     (let (ret, cStats) = getVMStats env
      in if ret \<noteq> 0 then Inl (HostStatisticsError ret) else Inr cStats)"

definition getVMStatistics64 :: "sysenv \<Rightarrow> error + vm_statistics64" where
  "getVMStatistics64 env = GetVMStatisticsCGO env"

definition getPageSize :: "sysenv \<Rightarrow> error + uint64" where
  "getPageSize env =
     (case SysctlUint64 env ''hw.pagesize'' of
        Inl err \<Rightarrow>
          (case SysctlUint64 env ''vm.pagesize'' of
             Inr vmPageSize \<Rightarrow> Inr vmPageSize
           | Inl vmErr \<Rightarrow> Inr 4096)
      | Inr pageSize \<Rightarrow> Inr pageSize)"

definition collectSwapStats :: "sysenv \<Rightarrow> error + SwapStats" where
  "collectSwapStats env = Inr zero_SwapStats"

text \<open>
  The arithmetic of \<open>collectMemoryStats\<close>, one definition for each variable of the source,
  all in \<open>uint64\<close>: \<open>+\<close>, \<open>-\<close> and \<open>*\<close> wrap around, \<open>div\<close> and \<open><\<close> are unsigned.
\<close>

definition totalPages :: "uint64 \<Rightarrow> uint64 \<Rightarrow> uint64" where
  "totalPages physmem pageSize = physmem div pageSize"

text \<open>\<open>usedPages\<close> as first assigned (lines 101 to 108).\<close>

definition usedPages0 :: "vm_statistics64 \<Rightarrow> uint64" where
  "usedPages0 vmStats =
     0 + ucast (ActiveCount vmStats)
       + ucast (InactiveCount vmStats)
       + ucast (WireCount vmStats)
       + ucast (SpeculativeCount vmStats)
       + ucast (CompressorPageCount vmStats)
       - ucast (PurgeableCount vmStats)
       - ucast (ExternalPageCount vmStats)"

text \<open>
  The formula of the specification for the same variable, in the integers: the sum of
  five counters less the two others, with no wrap-around.
\<close>

definition usedPages_spec :: "vm_statistics64 \<Rightarrow> int" where
  "usedPages_spec vmStats =
     uint (ActiveCount vmStats)
       + uint (InactiveCount vmStats)
       + uint (WireCount vmStats)
       + uint (SpeculativeCount vmStats)
       + uint (CompressorPageCount vmStats)
       - uint (PurgeableCount vmStats)
       - uint (ExternalPageCount vmStats)"

definition freePages :: "vm_statistics64 \<Rightarrow> uint64" where
  "freePages vmStats = ucast (FreeCount vmStats)"

text \<open>\<open>usedPages\<close> after the adjustment of lines 112 to 116.\<close>

definition usedPages :: "uint64 \<Rightarrow> uint64 \<Rightarrow> vm_statistics64 \<Rightarrow> uint64" where
  "usedPages physmem pageSize vmStats =
     (if usedPages0 vmStats + freePages vmStats > totalPages physmem pageSize
      then totalPages physmem pageSize - freePages vmStats
      else usedPages0 vmStats)"

text \<open>\<open>availablePages\<close> as first assigned (lines 119 to 121).\<close>

definition availablePages0 :: "vm_statistics64 \<Rightarrow> uint64" where
  "availablePages0 vmStats =
     freePages vmStats + ucast (InactiveCount vmStats) + ucast (PurgeableCount vmStats)"

text \<open>\<open>availablePages\<close> after the adjustment of lines 123 to 126.\<close>

definition availablePages :: "uint64 \<Rightarrow> uint64 \<Rightarrow> vm_statistics64 \<Rightarrow> uint64" where
  "availablePages physmem pageSize vmStats =
     (if availablePages0 vmStats > totalPages physmem pageSize
      then totalPages physmem pageSize
      else availablePages0 vmStats)"

text \<open>
  Lines 96 to 134: the statistics from the three values read, for a page size other than
  zero. The result of \<open>collectSwapStats\<close> is stored and its error dropped.
\<close>

definition memStats :: "sysenv \<Rightarrow> uint64 \<Rightarrow> uint64 \<Rightarrow> vm_statistics64 \<Rightarrow> MemoryStats" where
  "memStats env physmem pageSize vmStats =
     (let used = usedPages physmem pageSize vmStats * pageSize;
          available = availablePages physmem pageSize vmStats * pageSize
      in \<lparr>Total = physmem,
          Used = used,
          Available = available,
          Usage = fmul (fdiv (float64_of_uint64 used) (float64_of_uint64 physmem)) (Finite 100),
          Swap = (case collectSwapStats env of Inr s \<Rightarrow> s | Inl _ \<Rightarrow> zero_SwapStats)\<rparr>)"

text \<open>
  \<open>collectMemoryStats\<close>. A Go function returns the pair of a value and an error; every
  caller in this program ignores the value when the error is not nil, so the model
  returns one or the other. The division \<open>physmem / pageSize\<close> panics when \<open>pageSize\<close> is
  zero, after the three reads have succeeded.
\<close>

definition collectMemoryStats :: "sysenv \<Rightarrow> (error + MemoryStats) outcome" where
  "collectMemoryStats env =
     (case SysctlUint64 env ''hw.memsize'' of
        Inl err \<Rightarrow> Returns (Inl (Errorf ''failed to get physical memory'' err))
      | Inr physmem \<Rightarrow>
          (case getPageSize env of
             Inl err \<Rightarrow> Returns (Inl (Errorf ''failed to get page size'' err))
           | Inr pageSize \<Rightarrow>
               (case getVMStatistics64 env of
                  Inl err \<Rightarrow> Returns (Inl (Errorf ''failed to get VM statistics'' err))
                | Inr vmStats \<Rightarrow>
                    if pageSize = 0 then Panic
                    else Returns (Inr (memStats env physmem pageSize vmStats)))))"

definition collectSystemStats :: "sysenv \<Rightarrow> (error + SystemStats) outcome" where
  "collectSystemStats env =
     (case collectMemoryStats env of
        Panic \<Rightarrow> Panic
      | Returns (Inl err) \<Rightarrow> Returns (Inl (Errorf ''failed to collect memory stats'' err))
      | Returns (Inr m) \<Rightarrow>
          Returns (Inr \<lparr>CPU = zero_CPUStats, Memory = m, GPU = zero_GPUStats, Uptime = 0\<rparr>))"

section \<open>The interactive model\<close>

datatype ViewMode = OverviewMode | CPUDetailMode | MemoryDetailMode | GPUDetailMode

record model =
  stats :: SystemStats
  viewMode :: ViewMode
  refreshRate :: Duration
  lastUpdate :: Time
  width :: go_int
  height :: go_int
  quit :: bool
  lastError :: string

text \<open>
  The messages \<open>Update\<close> receives. \<open>tea.Msg\<close> is an empty interface: \<open>OtherMsg\<close> stands for
  every message of a type the \<open>switch\<close> has no case for. A \<open>KeyMsg\<close> is known to \<open>Update\<close>
  only through \<open>msg.String()\<close>.
\<close>

datatype Msg =
    WindowSizeMsg go_int go_int
  | TickMsg Time
  | KeyMsg string
  | OtherMsg

text \<open>
  The commands \<open>Update\<close> returns: \<open>nil\<close>, \<open>tea.Quit\<close>, and \<open>tea.Tick(d, f)\<close> where \<open>f\<close> always
  is the function that wraps the time of the tick into a \<open>TickMsg\<close>.
\<close>

datatype Cmd = NoCmd | Quit | Tick Duration

subsection \<open>The text of an error\<close>

fun digits :: "nat \<Rightarrow> string" where
  "digits n =
     (if n < 10 then [char_of (48 + n)]
      else digits (n div 10) @ [char_of (48 + n mod 10)])"

declare digits.simps [simp del]

text \<open>The verb \<open>%d\<close> of \<open>fmt\<close> on a signed integer.\<close>

definition fmt_d :: "int \<Rightarrow> string" where
  "fmt_d i = (if i < 0 then CHR ''-'' # digits (nat (- i)) else digits (nat i))"

text \<open>\<open>err.Error()\<close>. The return code of \<open>getVMStats\<close> is a C \<open>int\<close>, printed signed.\<close>

fun Error :: "error \<Rightarrow> string" where
  "Error (SysctlError s) = s"
| "Error (HostStatisticsError ret) =
     ''host_statistics64 failed with error code: '' @ fmt_d (sint ret)"
| "Error (Errorf prefix err) = prefix @ '': '' @ Error err"

subsection \<open>\<open>initialModel\<close>, \<open>Init\<close> and \<open>Update\<close>\<close>

text \<open>The statistics \<open>initialModel\<close> falls back to.\<close>

definition default_stats :: SystemStats where
  "default_stats =
     \<lparr>CPU = \<lparr>cpu_Usage = Finite 0, cpu_Cores = replicate 8 (Finite 0),
              cpu_LoadAvg = (Finite 0, Finite 0, Finite 0), cpu_Temp = Finite 0\<rparr>,
      Memory = \<lparr>Total = 0, Used = 0, Available = 0, Usage = Finite 0,
                 Swap = \<lparr>swap_Total = 0, swap_Used = 0, swap_Usage = Finite 0\<rparr>\<rparr>,
      GPU = \<lparr>gpu_Usage = Finite 0, gpu_MemoryUsage = Finite 0, gpu_MemoryUsed = 0,
              gpu_MemoryTotal = 0, gpu_Temp = Finite 0\<rparr>,
      Uptime = 0\<rparr>"

text \<open>\<open>initialModel\<close>, given the system and the value of \<open>time.Now()\<close>.\<close>

definition initialModel :: "sysenv \<Rightarrow> Time \<Rightarrow> model outcome" where
  "initialModel env now =
     (let m = \<lparr>stats = \<lparr>CPU = zero_CPUStats, Memory = zero_MemoryStats,
                         GPU = zero_GPUStats, Uptime = 0\<rparr>,
                viewMode = OverviewMode,
                refreshRate = Second,
                lastUpdate = now,
                width = 80,
                height = 24,
                quit = False,
                lastError = []\<rparr>
      in case collectSystemStats env of
           Panic \<Rightarrow> Panic
         | Returns (Inr s) \<Rightarrow> Returns (m\<lparr>stats := s\<rparr>)
         | Returns (Inl err) \<Rightarrow>
             Returns (m\<lparr>lastError := ''Failed to initialize system stats: '' @ Error err,
                        stats := default_stats\<rparr>))"

definition Init :: "model \<Rightarrow> Cmd" where
  "Init m = Tick (refreshRate m)"

text \<open>
  \<open>Update\<close>, given the system as it is when the message is handled. The comparisons of
  the refresh rate are the signed ones of \<open>int64\<close>.
\<close>

fun Update :: "sysenv \<Rightarrow> Msg \<Rightarrow> model \<Rightarrow> (model \<times> Cmd) outcome" where
  "Update env (WindowSizeMsg w h) m = Returns (m\<lparr>width := w, height := h\<rparr>, NoCmd)"
| "Update env (TickMsg t) m =
     (case collectSystemStats env of
        Panic \<Rightarrow> Panic
      | Returns r \<Rightarrow>
          (let m1 = (case r of
                       Inr newStats \<Rightarrow> m\<lparr>stats := newStats, lastError := []\<rparr>
                     | Inl err \<Rightarrow> m\<lparr>lastError := ''Error collecting stats: '' @ Error err\<rparr>);
               m2 = m1\<lparr>lastUpdate := t\<rparr>
           in Returns (m2, Tick (refreshRate m2))))"
| "Update env (KeyMsg k) m =
     (if k = ''ctrl+c'' \<or> k = ''q'' then Returns (m\<lparr>quit := True\<rparr>, Quit)
      else if k = ''1'' then Returns (m\<lparr>viewMode := OverviewMode\<rparr>, NoCmd)
      else if k = ''2'' then Returns (m\<lparr>viewMode := CPUDetailMode\<rparr>, NoCmd)
      else if k = ''3'' then Returns (m\<lparr>viewMode := MemoryDetailMode\<rparr>, NoCmd)
      else if k = ''4'' then Returns (m\<lparr>viewMode := GPUDetailMode\<rparr>, NoCmd)
      else if k = ''+'' \<or> k = ''='' then
        (if word_sless (100 * Millisecond) (refreshRate m)
         then Returns (m\<lparr>refreshRate := refreshRate m - 100 * Millisecond\<rparr>, NoCmd)
         else Returns (m, NoCmd))
      else if k = ''-'' \<or> k = ''_'' then
        (if word_sless (refreshRate m) (5 * Second)
         then Returns (m\<lparr>refreshRate := refreshRate m + 100 * Millisecond\<rparr>, NoCmd)
         else Returns (m, NoCmd))
      else Returns (m, NoCmd))"
| "Update env OtherMsg m = Returns (m, NoCmd)"

text \<open>
  Handling a list of messages one after the other, each with the system as it is at that
  moment, keeping the model and dropping the commands. A panic ends it.
\<close>

fun updates :: "(sysenv \<times> Msg) list \<Rightarrow> model \<Rightarrow> model outcome" where
  "updates [] m = Returns m"
| "updates ((env, msg) # evs) m =
     (case Update env msg m of
        Panic \<Rightarrow> Panic
      | Returns (m', c) \<Rightarrow> updates evs m')"

text \<open>
  The refresh rates the program reaches: the multiples of 100 ms from 100 ms to 5 s.
\<close>

definition rate_inv :: "Duration \<Rightarrow> bool" where
  "rate_inv r \<longleftrightarrow>
     100000000 dvd sint r \<and> 100000000 \<le> sint r \<and> sint r \<le> 5000000000"

subsection \<open>\<open>View\<close>\<close>

text \<open>
  What \<open>View\<close> takes from the libraries \<open>fmt\<close> and \<open>time\<close>: the verbs \<open>%.1f\<close> and \<open>%.2f\<close> on a
  \<open>float64\<close>, \<open>%v\<close> on a \<open>time.Duration\<close>, \<open>Time.Format("15:04:05")\<close> and
  \<open>Duration.Round(time.Second)\<close>.
\<close>

record printer =
  fmt_1f :: "float64 \<Rightarrow> string"
  fmt_2f :: "float64 \<Rightarrow> string"
  fmt_v :: "Duration \<Rightarrow> string"
  Format_clock :: "Time \<Rightarrow> string"
  Round_Second :: "Duration \<Rightarrow> Duration"

text \<open>The verb \<open>%2d\<close> on an index: decimal, padded with spaces on the left to two characters.\<close>

definition fmt_2d :: "nat \<Rightarrow> string" where
  "fmt_2d i = replicate (2 - length (digits i)) CHR '' '' @ digits i"

text \<open>Go strings are UTF-8: the characters outside ASCII are their bytes.\<close>

definition nl :: string where
  "nl = [CHR 0x0A]"

definition degree :: string where
  "degree = [CHR 0xC2, CHR 0xB0]"

definition warning_sign :: string where
  "warning_sign = [CHR 0xE2, CHR 0x9A, CHR 0xA0]"

definition rule_line :: string where
  "rule_line = concat (replicate 78 [CHR 0xE2, CHR 0x94, CHR 0x81])"

definition GB :: float64 where
  "GB = Finite (1024 * 1024 * 1024)"

definition renderOverview :: "printer \<Rightarrow> model \<Rightarrow> string" where
  "renderOverview p m =
     (let st = stats m; (l0, l1, l2) = cpu_LoadAvg (CPU st)
      in ''CPU Usage:    '' @ fmt_1f p (cpu_Usage (CPU st)) @ ''% | Temp: ''
           @ fmt_1f p (cpu_Temp (CPU st)) @ degree @ ''C'' @ nl
         @ ''Memory Usage: '' @ fmt_1f p (Usage (Memory st)) @ ''% (''
           @ fmt_1f p (fdiv (float64_of_uint64 (Used (Memory st))) GB) @ '' GB / ''
           @ fmt_1f p (fdiv (float64_of_uint64 (Total (Memory st))) GB) @ '' GB)'' @ nl
         @ ''GPU Usage:    '' @ fmt_1f p (gpu_Usage (GPU st)) @ ''% | Memory: ''
           @ fmt_1f p (gpu_MemoryUsage (GPU st)) @ ''%'' @ nl
         @ ''Load Average: '' @ fmt_2f p l0 @ '', '' @ fmt_2f p l1 @ '', '' @ fmt_2f p l2 @ nl
         @ ''Uptime:       '' @ fmt_v p (Round_Second p (Uptime st)) @ nl)"

definition renderCPUDetail :: "printer \<Rightarrow> model \<Rightarrow> string" where
  "renderCPUDetail p m =
     (let st = stats m; (l0, l1, l2) = cpu_LoadAvg (CPU st)
      in ''Overall CPU Usage: '' @ fmt_1f p (cpu_Usage (CPU st)) @ ''%'' @ nl
         @ ''Temperature: '' @ fmt_1f p (cpu_Temp (CPU st)) @ degree @ ''C'' @ nl @ nl
         @ ''Per-Core Usage:'' @ nl
         @ concat (map (\<lambda>(i, usage). ''Core '' @ fmt_2d i @ '': '' @ fmt_1f p usage @ ''%'' @ nl)
                       (enumerate 0 (cpu_Cores (CPU st))))
         @ nl @ ''Load Average: '' @ fmt_2f p l0 @ '', '' @ fmt_2f p l1 @ '', ''
           @ fmt_2f p l2 @ nl)"

definition renderMemoryDetail :: "printer \<Rightarrow> model \<Rightarrow> string" where
  "renderMemoryDetail p m =
     (let mem = Memory (stats m)
      in ''Memory Usage: '' @ fmt_1f p (Usage mem) @ ''% (''
           @ fmt_2f p (fdiv (float64_of_uint64 (Used mem)) GB) @ '' GB used / ''
           @ fmt_2f p (fdiv (float64_of_uint64 (Total mem)) GB) @ '' GB total)'' @ nl
         @ ''Available: '' @ fmt_2f p (fdiv (float64_of_uint64 (Available mem)) GB)
           @ '' GB'' @ nl @ nl
         @ ''Swap Usage: '' @ fmt_1f p (swap_Usage (Swap mem)) @ ''% (''
           @ fmt_2f p (fdiv (float64_of_uint64 (swap_Used (Swap mem))) GB) @ '' GB used / ''
           @ fmt_2f p (fdiv (float64_of_uint64 (swap_Total (Swap mem))) GB) @ '' GB total)''
           @ nl)"

definition renderGPUDetail :: "printer \<Rightarrow> model \<Rightarrow> string" where
  "renderGPUDetail p m =
     (let gpu = GPU (stats m)
      in ''GPU Usage: '' @ fmt_1f p (gpu_Usage gpu) @ ''%'' @ nl
         @ ''Temperature: '' @ fmt_1f p (gpu_Temp gpu) @ degree @ ''C'' @ nl @ nl
         @ ''GPU Memory Usage: '' @ fmt_1f p (gpu_MemoryUsage gpu) @ ''% (''
           @ fmt_2f p (fdiv (float64_of_uint64 (gpu_MemoryUsed gpu)) GB) @ '' GB used / ''
           @ fmt_2f p (fdiv (float64_of_uint64 (gpu_MemoryTotal gpu)) GB) @ '' GB total)''
           @ nl)"

definition View :: "printer \<Rightarrow> model \<Rightarrow> string" where
  "View p m =
     (if quit m then []
      else
        (case viewMode m of
           OverviewMode \<Rightarrow> ''mtop - System Monitor (Overview)'' @ nl
         | CPUDetailMode \<Rightarrow> ''mtop - CPU Details'' @ nl
         | MemoryDetailMode \<Rightarrow> ''mtop - Memory Details'' @ nl
         | GPUDetailMode \<Rightarrow> ''mtop - GPU Details'' @ nl)
        @ ''Last update: '' @ Format_clock p (lastUpdate m) @ '' | Refresh rate: ''
          @ fmt_v p (refreshRate m) @ nl
        @ rule_line @ nl @ nl
        @ (case viewMode m of
             OverviewMode \<Rightarrow> renderOverview p m
           | CPUDetailMode \<Rightarrow> renderCPUDetail p m
           | MemoryDetailMode \<Rightarrow> renderMemoryDetail p m
           | GPUDetailMode \<Rightarrow> renderGPUDetail p m)
        @ nl @ rule_line @ nl
        @ (if lastError m \<noteq> [] then warning_sign @ '' '' @ lastError m @ nl else [])
        @ ''1: Overview | 2: CPU | 3: Memory | 4: GPU | +/-: Refresh rate | q: Quit'' @ nl)"

section \<open>Inputs for the examples\<close>

definition vm_zero :: vm_statistics64 where
  "vm_zero =
     \<lparr>FreeCount = 0, ActiveCount = 0, InactiveCount = 0, WireCount = 0,
      ZeroFillCount = 0, Reactivations = 0, Pageins = 0, Pageouts = 0, Faults = 0,
      CowFaults = 0, Lookups = 0, Hits = 0, Purges = 0, PurgeableCount = 0,
      SpeculativeCount = 0, Decompressions = 0, Compressions = 0, Swapins = 0,
      Swapouts = 0, CompressorPageCount = 0, ThrottledCount = 0, ExternalPageCount = 0,
      InternalPageCount = 0, TotalUncompressedPagesInCompressor = 0\<rparr>"

text \<open>A system where \<open>hw.memsize\<close> and \<open>hw.pagesize\<close> answer and no other name does.\<close>

definition env_of :: "uint64 \<Rightarrow> uint64 \<Rightarrow> vm_statistics64 \<Rightarrow> sysenv" where
  "env_of physmem pageSize vmStats =
     \<lparr>SysctlUint64 = (\<lambda>name.
         if name = ''hw.memsize'' then Inr physmem
         else if name = ''hw.pagesize'' then Inr pageSize
         else Inl (SysctlError ''no such file or directory'')),
      getVMStats = (0, vmStats)\<rparr>"

text \<open>A system where every \<open>sysctl\<close> fails and \<open>getVMStats\<close> returns \<open>KERN_FAILURE\<close>.\<close>

definition env_failing :: sysenv where
  "env_failing =
     \<lparr>SysctlUint64 = (\<lambda>name. Inl (SysctlError ''operation not permitted'')),
      getVMStats = (5, vm_zero)\<rparr>"

text \<open>The input of the end-to-end example of the specification.\<close>

definition vm_example :: vm_statistics64 where
  "vm_example =
     vm_zero\<lparr>ActiveCount := 100, InactiveCount := 50, WireCount := 30,
             SpeculativeCount := 5, CompressorPageCount := 10, PurgeableCount := 20,
             ExternalPageCount := 5, FreeCount := 200\<rparr>"

definition env_example :: sysenv where
  "env_example = env_of (4096 * 1000) 4096 vm_example"

text \<open>What \<open>collectSystemStats\<close> returns for it.\<close>

definition stats_example :: SystemStats where
  "stats_example =
     \<lparr>CPU = zero_CPUStats,
      Memory = \<lparr>Total = 4096 * 1000, Used = 170 * 4096, Available = 270 * 4096,
                 Usage = Finite 17, Swap = zero_SwapStats\<rparr>,
      GPU = zero_GPUStats,
      Uptime = 0\<rparr>"

text \<open>Counters whose subtraction goes below zero, and a free count above the total.\<close>

definition vm_underflow :: vm_statistics64 where
  "vm_underflow = vm_zero\<lparr>PurgeableCount := 1, FreeCount := 1\<rparr>"

definition vm_free2000 :: vm_statistics64 where
  "vm_free2000 = vm_zero\<lparr>FreeCount := 2000\<rparr>"

text \<open>The statistics of a system that reports no physical memory and zero counters.\<close>

definition mem_zero_total :: MemoryStats where
  "mem_zero_total =
     \<lparr>Total = 0, Used = 0, Available = 0, Usage = NaN, Swap = zero_SwapStats\<rparr>"

text \<open>The model \<open>initialModel\<close> returns at time 0 when the first collection fails.\<close>

definition model_example :: model where
  "model_example =
     \<lparr>stats = default_stats, viewMode = OverviewMode, refreshRate = Second,
      lastUpdate = 0, width = 80, height = 24, quit = False,
      lastError = ''Failed to initialize system stats: failed to collect memory stats: ''
        @ ''failed to get physical memory: operation not permitted''\<rparr>"

definition printer_example :: printer where
  "printer_example =
     \<lparr>fmt_1f = (\<lambda>x. ''0.0''), fmt_2f = (\<lambda>x. ''0.00''), fmt_v = (\<lambda>d. ''1s''),
      Format_clock = (\<lambda>t. ''00:00:00''), Round_Second = (\<lambda>d. d)\<rparr>"

section \<open>Rounding to binary64\<close>

lemma bitlen_upper: "n < 2 ^ bitlen n"
proof (induction n rule: bitlen.induct)
  case (1 n)
  show ?case
  proof (cases "n = 0")
    case True
    then show ?thesis by (simp add: bitlen.simps)
  next
    case False
    have bl: "bitlen n = Suc (bitlen (n div 2))" using False by (subst bitlen.simps) simp
    have ih: "n div 2 < 2 ^ bitlen (n div 2)" using "1.IH" [OF False] .
    have "n < 2 * (n div 2) + 2" by presburger
    with ih have "n < 2 * 2 ^ bitlen (n div 2)" by linarith
    then show ?thesis by (simp add: bl)
  qed
qed

lemma bitlen_lower: "0 < n \<Longrightarrow> 2 ^ bitlen n \<le> 2 * n"
proof (induction n rule: bitlen.induct)
  case (1 n)
  then have n0: "n \<noteq> 0" by simp
  have bl: "bitlen n = Suc (bitlen (n div 2))" using n0 by (subst bitlen.simps) simp
  show ?case
  proof (cases "n div 2 = 0")
    case True
    have "bitlen (n div 2) = 0" unfolding True by (simp add: bitlen.simps)
    moreover have "1 \<le> n" using n0 by simp
    ultimately show ?thesis by (simp add: bl)
  next
    case False
    then have "0 < n div 2" by simp
    from "1.IH" [OF n0 this] have ih: "2 ^ bitlen (n div 2) \<le> 2 * (n div 2)" .
    have "2 * (n div 2) \<le> n" by presburger
    with ih have "2 * 2 ^ bitlen (n div 2) \<le> 2 * n" by linarith
    then show ?thesis by (simp add: bl)
  qed
qed

lemma bitlen_upper_rat: "(of_nat n :: rat) + 1 \<le> 2 ^ bitlen n"
proof -
  have "n + 1 \<le> 2 ^ bitlen n" using bitlen_upper [of n] by simp
  then have "(of_nat (n + 1) :: rat) \<le> of_nat (2 ^ bitlen n)" by (simp only: of_nat_le_iff)
  then show ?thesis by simp
qed

lemma bitlen_lower_rat: "0 < n \<Longrightarrow> (2::rat) ^ bitlen n \<le> 2 * of_nat n"
proof -
  assume "0 < n"
  then have "2 ^ bitlen n \<le> 2 * n" by (rule bitlen_lower)
  then have "(of_nat (2 ^ bitlen n) :: rat) \<le> of_nat (2 * n)" by (simp only: of_nat_le_iff)
  then show ?thesis by simp
qed

lemma powi_pred: "(2::rat) powi (e - 1) * 2 = 2 powi e"
  by (rule power_int_minus_mult) simp

lemma powi_succ: "(2::rat) powi (e + 1) = 2 powi e * 2"
  using powi_pred [of "e + 1"] by simp

lemma binade_bounds:
  assumes "0 < x"
  shows "2 powi (binade x) \<le> x \<and> x < 2 powi (binade x + 1)"
proof (cases "1 \<le> x")
  case True
  define n where "n = nat \<lfloor>x\<rfloor>"
  have fl: "1 \<le> \<lfloor>x\<rfloor>" using True by (simp add: le_floor_iff)
  then have npos: "0 < n" by (simp add: n_def)
  have nfl: "(of_nat n :: rat) = of_int \<lfloor>x\<rfloor>" using fl by (simp add: n_def)
  have nx1: "of_nat n \<le> x" unfolding nfl by simp
  have nx2: "x < of_nat n + 1" unfolding nfl by linarith
  have b: "binade x = int (bitlen n) - 1" using True by (simp add: binade_def n_def)
  have "(2::rat) powi (int (bitlen n) - 1) * 2 = 2 ^ bitlen n"
    by (simp only: powi_pred power_int_of_nat)
  moreover have "(2::rat) powi (int (bitlen n) - 1 + 1) = 2 ^ bitlen n" by simp
  ultimately show ?thesis
    unfolding b using nx1 nx2 bitlen_upper_rat [of n] bitlen_lower_rat [OF npos] by linarith
next
  case False
  then have x1: "x < 1" by simp
  define m where "m = \<lceil>1 / x\<rceil>"
  have inv: "1 < 1 / x" using assms x1 by simp
  have "1 < m" unfolding m_def using inv by (simp add: less_ceiling_iff)
  then have m2: "2 \<le> m" by simp
  define k where "k = nat (m - 1)"
  have kpos: "0 < k" using m2 by (simp add: k_def)
  have km: "(of_nat k :: rat) = of_int m - 1" using m2 by (simp add: k_def)
  have cm1: "of_int m - 1 < 1 / x" using ceiling_correct [of "1 / x"] by (simp add: m_def)
  have cm2: "1 / x \<le> of_int m" using ceiling_correct [of "1 / x"] by (simp add: m_def)
  have b: "binade x = - int (bitlen k)" using False by (simp add: binade_def k_def m_def)
  define P :: rat where "P = 2 ^ bitlen k"
  have Ppos: "0 < P" by (simp add: P_def)
  have up: "1 / x \<le> P" using bitlen_upper_rat [of k] km cm2 unfolding P_def by linarith
  have lo: "P < 2 * (1 / x)" using bitlen_lower_rat [OF kpos] km cm1 unfolding P_def by linarith
  have p1: "(2::rat) powi (- int (bitlen k)) = 1 / P"
    by (simp add: power_int_minus_divide P_def)
  have p2: "(2::rat) powi (- int (bitlen k) + 1) = 2 / P"
    using powi_succ [of "- int (bitlen k)"] by (simp add: p1)
  have a1: "1 / P \<le> x" using up assms Ppos by (simp add: field_simps)
  have a2: "x < 2 / P" using lo assms Ppos by (simp add: field_simps)
  show ?thesis unfolding b p1 p2 using a1 a2 by simp
qed

lemma binade_eqI:
  assumes "2 powi e \<le> x" "x < 2 powi (e + 1)"
  shows "binade x = e"
proof -
  have xpos: "0 < x" using assms(1) zero_less_power_int [of "2::rat" e] by linarith
  from binade_bounds [OF xpos] have b: "2 powi (binade x) \<le> x" "x < 2 powi (binade x + 1)" by auto
  have "\<not> binade x < e"
  proof
    assume "binade x < e"
    then have "(2::rat) powi (binade x + 1) \<le> 2 powi e" by (intro power_int_increasing) simp_all
    with b assms show False by linarith
  qed
  moreover have "\<not> e < binade x"
  proof
    assume "e < binade x"
    then have "(2::rat) powi (e + 1) \<le> 2 powi (binade x)" by (intro power_int_increasing) simp_all
    with b assms show False by linarith
  qed
  ultimately show ?thesis by simp
qed


lemma round_even_eqI:
  assumes "\<bar>x - of_int n\<bar> < 1 / 2"
  shows "round_even x = n"
proof -
  from assms have a1: "x - of_int n < 1 / 2" and a2: "of_int n - x < 1 / 2" by linarith+
  show ?thesis
  proof (cases "of_int n \<le> x")
    case True
    have "x < of_int n + 1" using a1 by linarith
    with True have "\<lfloor>x\<rfloor> = n" by (rule floor_unique)
    then show ?thesis using a1 by (simp add: round_even_def Let_def)
  next
    case False
    have lo: "of_int (n - 1) \<le> x" using a2 by simp
    have hi: "x < of_int (n - 1) + 1" using False by simp
    from lo hi have f: "\<lfloor>x\<rfloor> = n - 1" by (rule floor_unique)
    have "1 / 2 < x - of_int (n - 1)" using a2 by simp
    then show ?thesis unfolding round_even_def Let_def f by simp
  qed
qed

lemma round_even_ge_floor: "\<lfloor>x\<rfloor> \<le> round_even x"
  by (simp add: round_even_def Let_def)

lemma round_even_le: "of_int (round_even x) \<le> x + 1"
proof -
  have "round_even x \<le> \<lfloor>x\<rfloor> + 1" by (simp add: round_even_def Let_def)
  then have "(of_int (round_even x) :: rat) \<le> of_int (\<lfloor>x\<rfloor> + 1)" by (simp only: of_int_le_iff)
  then show ?thesis by simp linarith
qed

lemma round64_eval:
  assumes "2 powi e \<le> x" and "x < 2 powi (e + 1)" and "- 1022 \<le> e"
    and "round_even (x / 2 powi (e - 52)) = n"
    and "of_int n * 2 powi (e - 52) < (2::rat) powi 1024"
  shows "round64 x = Finite (of_int n * 2 powi (e - 52))"
proof -
  have xpos: "0 < x" using assms(1) zero_less_power_int [of "2::rat" e] by linarith
  have b: "binade x = e" using assms(1,2) by (rule binade_eqI)
  have m: "max e (- 1022) = e" using assms(3) by simp
  show ?thesis using xpos assms(4,5) by (simp add: round64_def b m Let_def)
qed

lemma round64_pos_finite:
  assumes "1 \<le> x" and "x < 2 ^ 64"
  shows "\<exists>r. 0 < r \<and> round64 x = Finite r"
proof -
  have xpos: "0 < x" using assms(1) by simp
  define e where "e = binade x"
  from binade_bounds [OF xpos] have lo: "2 powi e \<le> x" and hi: "x < 2 powi (e + 1)"
    by (simp_all add: e_def)
  have e0: "0 \<le> e"
  proof (rule ccontr)
    assume "\<not> 0 \<le> e"
    then have "(2::rat) powi (e + 1) \<le> 2 powi 0" by (intro power_int_increasing) simp_all
    with hi assms(1) show False by simp
  qed
  have e63: "e \<le> 63"
  proof (rule ccontr)
    assume "\<not> e \<le> 63"
    then have "(2::rat) powi 64 \<le> 2 powi e" by (intro power_int_increasing) simp_all
    with lo assms(2) show False by simp
  qed
  define u :: rat where "u = 2 powi (e - 52)"
  have upos: "0 < u" by (simp add: u_def)
  have u11: "u \<le> 2 powi 11" unfolding u_def using e63 by (intro power_int_increasing) simp_all
  have u0: "(2::rat) powi (e - 52) \<le> 2 powi e" by (intro power_int_increasing) simp_all
  have "u \<le> x" using u0 lo by (simp add: u_def)
  then have y1: "1 \<le> x / u" using upos by (simp add: field_simps)
  define n where "n = round_even (x / u)"
  have "1 \<le> \<lfloor>x / u\<rfloor>" using y1 by (simp add: le_floor_iff)
  then have n1: "1 \<le> n" unfolding n_def using round_even_ge_floor [of "x / u"] by linarith
  then have "(of_int 1 :: rat) \<le> of_int n" by (simp only: of_int_le_iff)
  then have n1': "(1::rat) \<le> of_int n" by simp
  define r where "r = of_int n * u"
  have "1 * u \<le> of_int n * u" using n1' upos by (intro mult_right_mono) simp_all
  then have rpos: "0 < r" using upos by (simp add: r_def)
  have "of_int n \<le> x / u + 1" unfolding n_def by (rule round_even_le)
  then have "of_int n * u \<le> (x / u + 1) * u" using upos by (intro mult_right_mono) simp_all
  also have "(x / u + 1) * u = x + u" using upos by (simp add: field_simps)
  finally have "r \<le> x + u" by (simp add: r_def)
  also have "\<dots> < 2 ^ 64 + 2 powi 11" using assms(2) u11 by linarith
  also have "\<dots> \<le> 2 powi 65" by simp
  also have "(2::rat) powi 65 \<le> 2 powi 1024" by (intro power_int_increasing) simp_all
  finally have rlt: "r < 2 powi 1024" .
  have m: "max e (- 1022) = e" using e0 by simp
  have "round64 x = Finite r"
    using xpos rlt unfolding round64_def e_def [symmetric] m Let_def u_def [symmetric] n_def [symmetric] r_def [symmetric]
    by simp
  with rpos show ?thesis by blast
qed

lemma float64_of_uint64_0: "float64_of_uint64 0 = Finite 0"
  by (simp add: float64_of_uint64_def round64_def)

lemma float64_of_uint64_pos:
  assumes "w \<noteq> 0"
  shows "\<exists>r. 0 < r \<and> float64_of_uint64 w = Finite r"
proof -
  have "0 < unat w" using assms by (simp add: unat_gt_0)
  then have "1 \<le> unat w" by simp
  then have "(of_nat 1 :: rat) \<le> of_nat (unat w)" by (simp only: of_nat_le_iff)
  then have a: "(1::rat) \<le> of_nat (unat w)" by simp
  have "unat w < 2 ^ 64" using unsigned_less [of w, where 'a = nat] by simp
  then have "(of_nat (unat w) :: rat) < of_nat (2 ^ 64)" by (simp only: of_nat_less_iff)
  then have b: "(of_nat (unat w) :: rat) < 2 ^ 64" by simp
  show ?thesis unfolding float64_of_uint64_def using a b by (rule round64_pos_finite)
qed

section \<open>The arithmetic of \<open>collectMemoryStats\<close>\<close>

lemma getPageSize_env_of: "getPageSize (env_of physmem pageSize vmStats) = Inr pageSize"
  by (simp add: getPageSize_def env_of_def)

lemma env_of_simps:
  "SysctlUint64 (env_of physmem pageSize vmStats) ''hw.memsize'' = Inr physmem"
  "SysctlUint64 (env_of physmem pageSize vmStats) ''hw.pagesize'' = Inr pageSize"
  "getVMStats (env_of physmem pageSize vmStats) = (0, vmStats)"
  by (simp_all add: env_of_def)

lemma collectMemoryStats_env_of:
  "pageSize \<noteq> 0 \<Longrightarrow>
   collectMemoryStats (env_of physmem pageSize vmStats) =
     Returns (Inr (memStats (env_of physmem pageSize vmStats) physmem pageSize vmStats))"
  by (simp add: collectMemoryStats_def getPageSize_env_of getVMStatistics64_def
      GetVMStatisticsCGO_def env_of_simps)

lemma usedPages0_word_of_int: "usedPages0 vm = word_of_int (usedPages_spec vm)"
  by (simp add: usedPages0_def usedPages_spec_def)

lemma uint_ucast_32_64: "uint (ucast (x :: uint32) :: uint64) = uint x"
  by (simp add: uint_up_ucast is_up)

lemma counter_bounds: "0 \<le> uint (x :: uint32)" "uint (x :: uint32) < 4294967296"
  using uint_lt2p [of x] by simp_all

lemma usedPages_spec_bounds: "- 8589934592 < usedPages_spec vm" "usedPages_spec vm < 21474836480"
  unfolding usedPages_spec_def
  using counter_bounds [of "ActiveCount vm"] counter_bounds [of "InactiveCount vm"]
    counter_bounds [of "WireCount vm"] counter_bounds [of "SpeculativeCount vm"]
    counter_bounds [of "CompressorPageCount vm"] counter_bounds [of "PurgeableCount vm"]
    counter_bounds [of "ExternalPageCount vm"]
  by linarith+

lemma uint_usedPages0: "uint (usedPages0 vm) = usedPages_spec vm mod 2 ^ 64"
  by (simp add: usedPages0_word_of_int uint_word_of_int)

lemma uint_usedPages0_nonneg:
  "0 \<le> usedPages_spec vm \<Longrightarrow> uint (usedPages0 vm) = usedPages_spec vm"
  using usedPages_spec_bounds [of vm] by (simp add: uint_usedPages0)

lemma pages_bytes_le:
  fixes a p s :: uint64
  assumes "a \<le> p div s" and "s \<noteq> 0"
  shows "a * s \<le> p"
proof -
  have "unat a \<le> unat p div unat s" using assms(1) by (simp add: word_le_nat_alt unat_div)
  moreover have "0 < unat s" using assms(2) by (simp add: unat_gt_0)
  ultimately have "unat a * unat s \<le> unat p div unat s * unat s" by simp
  also have "\<dots> \<le> unat p" by (rule div_times_less_eq_dividend)
  finally have le: "unat a * unat s \<le> unat p" .
  have "unat p < 2 ^ 64" using unsigned_less [of p, where 'a = nat] by simp
  with le have "unat a * unat s < 2 ^ 64" by linarith
  then have "unat (a * s) = unat a * unat s" by (simp add: unat_mult_lem [THEN iffD1])
  with le show ?thesis by (simp add: word_le_nat_alt)
qed

lemma availablePages_le: "availablePages physmem pageSize vm \<le> totalPages physmem pageSize"
  by (simp add: availablePages_def not_less)

lemma available_le_total:
  "pageSize \<noteq> 0 \<Longrightarrow>
   Available (memStats env physmem pageSize vm) \<le> Total (memStats env physmem pageSize vm)"
  using availablePages_le [of physmem pageSize vm]
  by (simp add: memStats_def Let_def totalPages_def pages_bytes_le)

lemma usedPages_le:
  assumes free: "freePages vm \<le> totalPages physmem pageSize"
    and nonneg: "0 \<le> usedPages_spec vm"
  shows "usedPages physmem pageSize vm \<le> totalPages physmem pageSize"
proof (cases "totalPages physmem pageSize < usedPages0 vm + freePages vm")
  case True
  then have "usedPages physmem pageSize vm = totalPages physmem pageSize - freePages vm"
    by (simp add: usedPages_def)
  with free show ?thesis by (simp add: word_sub_le)
next
  case False
  from False have u: "usedPages physmem pageSize vm = usedPages0 vm"
    by (simp add: usedPages_def)
  from False have le: "usedPages0 vm + freePages vm \<le> totalPages physmem pageSize"
    by (simp add: not_less)
  have a: "uint (usedPages0 vm) = usedPages_spec vm" using nonneg by (rule uint_usedPages0_nonneg)
  have b: "uint (freePages vm) = uint (FreeCount vm)"
    by (simp add: freePages_def uint_ucast_32_64)
  have "uint (usedPages0 vm + freePages vm) = (uint (usedPages0 vm) + uint (freePages vm)) mod 2 ^ 64"
    by (simp add: uint_word_ariths)
  also have "\<dots> = uint (usedPages0 vm) + uint (freePages vm)"
    unfolding a b using usedPages_spec_bounds [of vm] counter_bounds [of "FreeCount vm"] nonneg
    by simp
  finally have "uint (usedPages0 vm) \<le> uint (usedPages0 vm + freePages vm)"
    unfolding b using counter_bounds [of "FreeCount vm"] by simp
  then have "usedPages0 vm \<le> usedPages0 vm + freePages vm" by (simp add: word_le_def)
  with le show ?thesis unfolding u by simp
qed

lemma used_le_total:
  assumes "pageSize \<noteq> 0" and "freePages vm \<le> totalPages physmem pageSize"
    and "0 \<le> usedPages_spec vm"
  shows "Used (memStats env physmem pageSize vm) \<le> Total (memStats env physmem pageSize vm)"
  using usedPages_le [OF assms(2,3)] assms(1)
  by (simp add: memStats_def Let_def totalPages_def pages_bytes_le)

text \<open>When the check of line 113 fires and the free pages fit, the subtraction is exact.\<close>

lemma usedPages_clamp_exact:
  assumes "totalPages physmem pageSize < usedPages0 vm + freePages vm"
    and "freePages vm \<le> totalPages physmem pageSize"
  shows "uint (usedPages physmem pageSize vm)
           = uint (totalPages physmem pageSize) - uint (freePages vm)"
proof -
  have "usedPages physmem pageSize vm = totalPages physmem pageSize - freePages vm"
    using assms(1) by (simp add: usedPages_def)
  moreover have "uint (freePages vm) \<le> uint (totalPages physmem pageSize)"
    using assms(2) by (simp add: word_le_def)
  ultimately show ?thesis by (simp add: uint_sub_lem [THEN iffD1])
qed

subsection \<open>The first value of \<open>usedPages\<close>\<close>

text \<open>
  C7, as amended: \<open>usedPages\<close> is computed in \<open>uint64\<close>. Whenever the purgeable and external
  counts together do not exceed the sum of the active, inactive, wired, speculative and
  compressor counts, its first value is exactly
  active + inactive + wired + speculative + compressed - purgeable - external,
  so the subtraction reduces the figure.
\<close>

theorem usedPages0_is_formula:
  "uint (PurgeableCount vm) + uint (ExternalPageCount vm)
     \<le> uint (ActiveCount vm) + uint (InactiveCount vm) + uint (WireCount vm)
         + uint (SpeculativeCount vm) + uint (CompressorPageCount vm)
   \<Longrightarrow> uint (usedPages0 vm) = usedPages_spec vm"
  using usedPages_spec_bounds [of vm] by (simp add: uint_usedPages0 usedPages_spec_def)

text \<open>The example of the specification satisfies the hypothesis: 25 \<open>\<le>\<close> 195, and the value is 170.\<close>

theorem usedPages0_is_formula_witness:
  "uint (PurgeableCount vm_example) + uint (ExternalPageCount vm_example)
     \<le> uint (ActiveCount vm_example) + uint (InactiveCount vm_example)
         + uint (WireCount vm_example) + uint (SpeculativeCount vm_example)
         + uint (CompressorPageCount vm_example) \<and>
   uint (usedPages0 vm_example) = 170 \<and> usedPages_spec vm_example = 170"
  using usedPages0_is_formula [of vm_example]
  by (simp add: vm_example_def vm_zero_def usedPages_spec_def)

text \<open>
  C7 as stated fails: with one purgeable page and every other counter zero, the formula
  in signed arithmetic gives -1 and \<open>usedPages\<close> is 18446744073709551615.
\<close>

theorem usedPages0_signed_counterexample:
  "usedPages_spec (vm_zero\<lparr>PurgeableCount := 1\<rparr>) = - 1 \<and>
   uint (usedPages0 (vm_zero\<lparr>PurgeableCount := 1\<rparr>)) = 18446744073709551615 \<and>
   uint (usedPages0 (vm_zero\<lparr>PurgeableCount := 1\<rparr>))
     \<noteq> usedPages_spec (vm_zero\<lparr>PurgeableCount := 1\<rparr>)"
proof -
  have "usedPages0 (vm_zero\<lparr>PurgeableCount := 1\<rparr>) = 18446744073709551615"
    by (simp add: usedPages0_def vm_zero_def)
  then show ?thesis by (simp add: usedPages_spec_def vm_zero_def)
qed

subsection \<open>The bounds on \<open>Used\<close> and \<open>Available\<close>\<close>

text \<open>
  C1 fails on the code. With 1000 pages of 4096 bytes, one free page, one purgeable page
  and every other counter zero, the free count is below the total; the subtraction in
  \<open>usedPages\<close> wraps around to \<open>2^64 - 1\<close>, adding the free page wraps again to 0, the check
  of line 113 does not fire, and \<open>Used\<close> is \<open>2^64 - 4096\<close> bytes, above \<open>Total\<close>.
  (Without that wrap-around the bound holds: \<open>used_le_total\<close>, \<open>available_le_total\<close>.)
\<close>

theorem used_exceeds_total:
  "freePages vm_underflow \<le> totalPages (4096 * 1000) 4096 \<and>
   collectMemoryStats (env_of (4096 * 1000) 4096 vm_underflow) =
     Returns (Inr (memStats (env_of (4096 * 1000) 4096 vm_underflow) (4096 * 1000) 4096 vm_underflow)) \<and>
   Total (memStats (env_of (4096 * 1000) 4096 vm_underflow) (4096 * 1000) 4096 vm_underflow) = 4096000 \<and>
   Used (memStats (env_of (4096 * 1000) 4096 vm_underflow) (4096 * 1000) 4096 vm_underflow) = 18446744073709547520 \<and>
   \<not> Used (memStats (env_of (4096 * 1000) 4096 vm_underflow) (4096 * 1000) 4096 vm_underflow)
      \<le> Total (memStats (env_of (4096 * 1000) 4096 vm_underflow) (4096 * 1000) 4096 vm_underflow)"
  by (simp add: collectMemoryStats_env_of)
     (simp add: memStats_def Let_def usedPages_def usedPages0_def freePages_def totalPages_def
        vm_underflow_def vm_zero_def)

text \<open>
  C2 fails on the code. With 1000 pages in total and 2000 free pages, the check of
  line 113 fires and \<open>usedPages\<close> becomes \<open>totalPages - freePages\<close> in \<open>uint64\<close>, which is
  \<open>2^64 - 1000\<close> and not 0; \<open>Used\<close> is \<open>2^64 - 4096000\<close> bytes.
  (When the free pages do not exceed the total, the value is exact: \<open>usedPages_clamp_exact\<close>.)
\<close>

theorem used_wraps_when_free_exceeds_total:
  "totalPages (4096 * 1000) 4096 = 1000 \<and>
   freePages vm_free2000 = 2000 \<and>
   usedPages0 vm_free2000 = 0 \<and>
   totalPages (4096 * 1000) 4096 < usedPages0 vm_free2000 + freePages vm_free2000 \<and>
   usedPages (4096 * 1000) 4096 vm_free2000 = 18446744073709550616 \<and>
   usedPages (4096 * 1000) 4096 vm_free2000 \<noteq> 0 \<and>
   Used (memStats env (4096 * 1000) 4096 vm_free2000) = 18446744073705455616"
  by (simp add: memStats_def Let_def usedPages_def usedPages0_def freePages_def totalPages_def
        vm_free2000_def vm_zero_def)

section \<open>Page size\<close>

text \<open>
  C9: \<open>getPageSize\<close> always returns a page size and no error; when the queries of both
  \<open>hw.pagesize\<close> and \<open>vm.pagesize\<close> fail, the page size is 4096; and no error of
  \<open>collectMemoryStats\<close> is the one it builds for a failed page size.
\<close>

theorem getPageSize_never_fails:
  "(\<exists>v. getPageSize env = Inr v) \<and>
   (isl (SysctlUint64 env ''hw.pagesize'') \<and> isl (SysctlUint64 env ''vm.pagesize'')
      \<longrightarrow> getPageSize env = Inr 4096) \<and>
   (\<forall>e. collectMemoryStats env \<noteq> Returns (Inl (Errorf ''failed to get page size'' e)))"
proof (intro conjI)
  show ok: "\<exists>v. getPageSize env = Inr v"
    by (simp add: getPageSize_def split: sum.splits)
  show "isl (SysctlUint64 env ''hw.pagesize'') \<and> isl (SysctlUint64 env ''vm.pagesize'')
      \<longrightarrow> getPageSize env = Inr 4096"
    by (auto simp: getPageSize_def isl_def)
  from ok obtain v where v: "getPageSize env = Inr v" ..
  show "\<forall>e. collectMemoryStats env \<noteq> Returns (Inl (Errorf ''failed to get page size'' e))"
    by (simp add: collectMemoryStats_def v split: sum.splits)
qed

theorem getPageSize_never_fails_witness:
  "isl (SysctlUint64 env_failing ''hw.pagesize'') \<and>
   isl (SysctlUint64 env_failing ''vm.pagesize'') \<and>
   getPageSize env_failing = Inr 4096"
  using getPageSize_never_fails [of env_failing] by (simp add: env_failing_def)

section \<open>The usage percentage\<close>

lemma collectMemoryStats_Inr:
  assumes "collectMemoryStats env = Returns (Inr m)"
  shows "\<exists>physmem pageSize vm. pageSize \<noteq> 0 \<and> m = memStats env physmem pageSize vm"
  using assms by (auto simp: collectMemoryStats_def split: sum.splits if_splits)

lemma Usage_memStats:
  "Usage (memStats env physmem pageSize vm) =
     fmul (fdiv (float64_of_uint64 (Used (memStats env physmem pageSize vm)))
                (float64_of_uint64 (Total (memStats env physmem pageSize vm)))) (Finite 100)"
  by (simp add: memStats_def Let_def)

lemma usage_of_zero:
  "fmul (fdiv (float64_of_uint64 used) (float64_of_uint64 0)) (Finite 100) =
     (if used = 0 then NaN else PosInf)"
proof (cases "used = 0")
  case True
  then show ?thesis by (simp add: float64_of_uint64_0)
next
  case False
  then obtain r where "0 < r" "float64_of_uint64 used = Finite r"
    using float64_of_uint64_pos by blast
  with False show ?thesis by (simp add: float64_of_uint64_0)
qed

lemma collect_zero_total:
  "collectMemoryStats (env_of 0 4096 vm_zero) = Returns (Inr mem_zero_total)"
  by (simp add: collectMemoryStats_env_of memStats_def Let_def usedPages_def usedPages0_def
      freePages_def totalPages_def availablePages_def availablePages0_def vm_zero_def
      float64_of_uint64_0 collectSwapStats_def mem_zero_total_def)

text \<open>
  C3, as amended: when the page size read is not zero, \<open>collectMemoryStats\<close> does not panic;
  the usage percentage always is \<open>float64(Used) / float64(Total) * 100\<close> in binary64; and
  for \<open>Total = 0\<close> that floating-point division by zero gives NaN when \<open>Used\<close> is 0 and plus
  infinity otherwise, never 0.
\<close>

theorem usage_of_zero_total:
  "(getPageSize env \<noteq> Inr 0 \<longrightarrow> collectMemoryStats env \<noteq> Panic) \<and>
   (collectMemoryStats env = Returns (Inr m) \<longrightarrow>
      Usage m = fmul (fdiv (float64_of_uint64 (Used m)) (float64_of_uint64 (Total m))) (Finite 100) \<and>
      (Total m = 0 \<longrightarrow> Usage m = (if Used m = 0 then NaN else PosInf) \<and> Usage m \<noteq> Finite 0))"
proof (intro conjI impI)
  assume "getPageSize env \<noteq> Inr 0"
  then show "collectMemoryStats env \<noteq> Panic"
    by (auto simp: collectMemoryStats_def split: sum.splits)
next
  assume "collectMemoryStats env = Returns (Inr m)"
  then obtain physmem pageSize vm where m: "m = memStats env physmem pageSize vm"
    using collectMemoryStats_Inr by blast
  show eq: "Usage m = fmul (fdiv (float64_of_uint64 (Used m)) (float64_of_uint64 (Total m))) (Finite 100)"
    unfolding m by (rule Usage_memStats)
  assume "Total m = 0"
  with eq show z: "Usage m = (if Used m = 0 then NaN else PosInf)"
    by (simp add: usage_of_zero)
  then show "Usage m \<noteq> Finite 0" by simp
qed

theorem usage_of_zero_total_witness:
  "getPageSize (env_of 0 4096 vm_zero) \<noteq> Inr 0 \<and>
   collectMemoryStats (env_of 0 4096 vm_zero) = Returns (Inr mem_zero_total) \<and>
   Total mem_zero_total = 0 \<and> Used mem_zero_total = 0 \<and> Usage mem_zero_total = NaN"
  using usage_of_zero_total [of "env_of 0 4096 vm_zero" mem_zero_total]
  by (simp add: collect_zero_total getPageSize_env_of) (simp add: mem_zero_total_def)

text \<open>
  C3 as stated fails: for no physical memory, page size 4096 and zero counters the usage
  percentage is NaN.
\<close>

theorem usage_of_zero_total_counterexample:
  "collectMemoryStats (env_of 0 4096 vm_zero) = Returns (Inr mem_zero_total) \<and>
   Total mem_zero_total = 0 \<and> Usage mem_zero_total = NaN \<and> Usage mem_zero_total \<noteq> Finite 0"
  by (simp add: collect_zero_total) (simp add: mem_zero_total_def)

subsection \<open>The end-to-end example\<close>

lemma float64_of_uint64_696320: "float64_of_uint64 696320 = Finite 696320"
proof -
  have "round64 696320 = Finite (of_int 5981343255101440 * 2 powi (19 - 52))"
    by (rule round64_eval) (simp_all add: round_even_eqI)
  then show ?thesis by (simp add: float64_of_uint64_def)
qed

lemma float64_of_uint64_4096000: "float64_of_uint64 4096000 = Finite 4096000"
proof -
  have "round64 4096000 = Finite (of_int 8796093022208000 * 2 powi (21 - 52))"
    by (rule round64_eval) (simp_all add: round_even_eqI)
  then show ?thesis by (simp add: float64_of_uint64_def)
qed

lemma round64_17_100: "round64 (17 / 100) = Finite (6124895493223875 / 36028797018963968)"
proof -
  have "round64 (17 / 100) = Finite (of_int 6124895493223875 * 2 powi (- 3 - 52))"
    by (rule round64_eval) (simp_all add: round_even_eqI)
  then show ?thesis by simp
qed

lemma round64_17: "round64 (6124895493223875 / 36028797018963968 * 100) = Finite 17"
proof -
  have "round64 (6124895493223875 / 36028797018963968 * 100) = Finite (of_int 4785074604081152 * 2 powi (4 - 52))"
    by (rule round64_eval) (simp_all add: round_even_eqI)
  then show ?thesis by simp
qed

lemma usage_example:
  "fmul (fdiv (float64_of_uint64 696320) (float64_of_uint64 4096000)) (Finite 100) = Finite 17"
proof -
  have "fdiv (Finite 696320) (Finite 4096000) = round64 (17 / 100)" by simp
  then have "fdiv (float64_of_uint64 696320) (float64_of_uint64 4096000)
      = Finite (6124895493223875 / 36028797018963968)"
    by (simp only: float64_of_uint64_696320 float64_of_uint64_4096000 round64_17_100)
  then show ?thesis by (simp only: fmul.simps round64_17)
qed

lemma memStats_example:
  "memStats env_example (4096 * 1000) 4096 vm_example =
     \<lparr>Total = 4096 * 1000, Used = 170 * 4096, Available = 270 * 4096,
      Usage = Finite 17, Swap = zero_SwapStats\<rparr>"
proof -
  have u: "usedPages (4096 * 1000) 4096 vm_example = 170"
    by (simp add: usedPages_def usedPages0_def freePages_def totalPages_def
        vm_example_def vm_zero_def)
  have a: "availablePages (4096 * 1000) 4096 vm_example = 270"
    by (simp add: availablePages_def availablePages0_def freePages_def totalPages_def
        vm_example_def vm_zero_def)
  show ?thesis
    unfolding memStats_def Let_def u a using usage_example by (simp add: collectSwapStats_def)
qed

lemma collectMemoryStats_example:
  "collectMemoryStats env_example =
     Returns (Inr \<lparr>Total = 4096 * 1000, Used = 170 * 4096, Available = 270 * 4096,
                   Usage = Finite 17, Swap = zero_SwapStats\<rparr>)"
  using memStats_example unfolding env_example_def by (simp add: collectMemoryStats_env_of)

lemma collectSystemStats_example: "collectSystemStats env_example = Returns (Inr stats_example)"
  by (simp add: collectSystemStats_def collectMemoryStats_example stats_example_def)

text \<open>
  C8: for the counters of the example, page size 4096 and 4096 * 1000 bytes of memory,
  \<open>usedPages\<close> is 170 and the check of line 113 does not fire, \<open>availablePages\<close> is 270,
  \<open>Used\<close> is 170 * 4096 bytes, \<open>Available\<close> is 270 * 4096 bytes and the usage percentage is
  the binary64 value 17.
\<close>

theorem end_to_end_example:
  "usedPages0 vm_example = 170 \<and>
   \<not> totalPages (4096 * 1000) 4096 < usedPages0 vm_example + freePages vm_example \<and>
   usedPages (4096 * 1000) 4096 vm_example = 170 \<and>
   availablePages0 vm_example = 270 \<and>
   availablePages (4096 * 1000) 4096 vm_example = 270 \<and>
   collectMemoryStats env_example =
     Returns (Inr \<lparr>Total = 4096 * 1000, Used = 170 * 4096, Available = 270 * 4096,
                   Usage = Finite 17, Swap = zero_SwapStats\<rparr>)"
proof (intro conjI)
  show "collectMemoryStats env_example =
     Returns (Inr \<lparr>Total = 4096 * 1000, Used = 170 * 4096, Available = 270 * 4096,
                   Usage = Finite 17, Swap = zero_SwapStats\<rparr>)"
    by (rule collectMemoryStats_example)
qed (simp_all add: usedPages_def usedPages0_def availablePages_def availablePages0_def
      freePages_def totalPages_def vm_example_def vm_zero_def)

section \<open>The state machine\<close>

lemma sint_100ms: "sint (100 * Millisecond) = 100000000"
  by (simp add: Millisecond_def)

lemma sint_5s: "sint (5 * Second) = 5000000000"
  by (simp add: Second_def Millisecond_def)

lemma sint_Second: "sint Second = 1000000000"
  by (simp add: Second_def Millisecond_def)

lemma sint_sub_100ms:
  assumes "100000000 < sint (r :: Duration)"
  shows "sint (r - 100 * Millisecond) = sint r - 100000000"
proof -
  have "sint r < 2 ^ 63" using sint_lt [of r] by simp
  then have "signed_take_bit 63 (sint r - 100000000) = sint r - 100000000"
    using assms by (intro signed_take_bit_int_eq_self) simp_all
  moreover have "sint (r - 100 * Millisecond) = signed_take_bit 63 (sint r - sint (100 * Millisecond :: Duration))"
    using sint_word_ariths(2) [of r "100 * Millisecond"] by simp
  ultimately show ?thesis by (simp only: sint_100ms)
qed

lemma sint_add_100ms:
  assumes "sint (r :: Duration) < 5000000000" and "0 \<le> sint r"
  shows "sint (r + 100 * Millisecond) = sint r + 100000000"
proof -
  have "signed_take_bit 63 (sint r + 100000000) = sint r + 100000000"
    using assms by (intro signed_take_bit_int_eq_self) simp_all
  moreover have "sint (r + 100 * Millisecond) = signed_take_bit 63 (sint r + sint (100 * Millisecond :: Duration))"
    using sint_word_ariths(1) [of r "100 * Millisecond"] by simp
  ultimately show ?thesis by (simp only: sint_100ms)
qed

lemma rate_inv_dec:
  assumes "rate_inv r" and "word_sless (100 * Millisecond) r"
  shows "rate_inv (r - 100 * Millisecond)"
proof -
  have lt: "100000000 < sint r" using assms(2) by (simp add: word_sless_alt sint_100ms)
  from assms(1) obtain k where k: "sint r = 100000000 * k" by (auto simp: rate_inv_def)
  with lt have "2 \<le> k" by simp
  with k assms(1) show ?thesis by (simp add: rate_inv_def sint_sub_100ms [OF lt])
qed

lemma rate_inv_inc:
  assumes "rate_inv r" and "word_sless r (5 * Second)"
  shows "rate_inv (r + 100 * Millisecond)"
proof -
  have lt: "sint r < 5000000000" using assms(2) by (simp add: word_sless_alt sint_5s)
  have ge: "0 \<le> sint r" using assms(1) by (simp add: rate_inv_def)
  from assms(1) obtain k where k: "sint r = 100000000 * k" by (auto simp: rate_inv_def)
  with lt have "k \<le> 49" by simp
  with k assms(1) show ?thesis by (simp add: rate_inv_def sint_add_100ms [OF lt ge])
qed

lemma Update_KeyMsg_char:
  "\<exists>m' c. Update env (KeyMsg k) m = Returns (m', c) \<and>
     (c = Quit \<and> m' = m\<lparr>quit := True\<rparr>
      \<or> c = NoCmd \<and> quit m' = quit m \<and>
          (refreshRate m' = refreshRate m
           \<or> word_sless (100 * Millisecond) (refreshRate m)
               \<and> refreshRate m' = refreshRate m - 100 * Millisecond
           \<or> word_sless (refreshRate m) (5 * Second)
               \<and> refreshRate m' = refreshRate m + 100 * Millisecond))"
  by simp

lemma Update_quit:
  assumes "Update env msg m = Returns (m', c)"
  shows "c = Quit \<and> m' = m\<lparr>quit := True\<rparr> \<or> c \<noteq> Quit \<and> quit m' = quit m"
proof (cases msg)
  case (KeyMsg k)
  with assms Update_KeyMsg_char [of env k m] show ?thesis by auto
next
  case (TickMsg t)
  with assms show ?thesis by (auto simp: Let_def split: outcome.splits sum.splits)
next
  case (WindowSizeMsg w h)
  with assms show ?thesis by auto
next
  case OtherMsg
  with assms show ?thesis by auto
qed

lemma Update_rate_inv:
  assumes "Update env msg m = Returns (m', c)" and "rate_inv (refreshRate m)"
  shows "rate_inv (refreshRate m')"
proof (cases msg)
  case (KeyMsg k)
  with assms(1) Update_KeyMsg_char [of env k m]
  have "refreshRate m' = refreshRate m
     \<or> word_sless (100 * Millisecond) (refreshRate m)
         \<and> refreshRate m' = refreshRate m - 100 * Millisecond
     \<or> word_sless (refreshRate m) (5 * Second)
         \<and> refreshRate m' = refreshRate m + 100 * Millisecond"
    by auto
  with assms(2) show ?thesis
    using rate_inv_dec [of "refreshRate m"] rate_inv_inc [of "refreshRate m"] by auto
next
  case (TickMsg t)
  with assms show ?thesis
    by (auto simp: Let_def split: outcome.splits sum.splits)
next
  case (WindowSizeMsg w h)
  with assms show ?thesis by auto
next
  case OtherMsg
  with assms show ?thesis by auto
qed

lemma updates_Cons_Returns:
  assumes "updates (ev # evs) m = Returns m'"
  obtains m1 c where "Update (fst ev) (snd ev) m = Returns (m1, c)" and "updates evs m1 = Returns m'"
  using assms by (cases ev) (auto split: outcome.splits)

lemma updates_rate_inv:
  "updates evs m = Returns m' \<Longrightarrow> rate_inv (refreshRate m) \<Longrightarrow> rate_inv (refreshRate m')"
proof (induction evs arbitrary: m)
  case Nil
  then show ?case by simp
next
  case (Cons ev evs)
  from Cons.prems(1) obtain m1 c where u: "Update (fst ev) (snd ev) m = Returns (m1, c)"
    and r: "updates evs m1 = Returns m'"
    by (rule updates_Cons_Returns)
  from u Cons.prems(2) have "rate_inv (refreshRate m1)" by (rule Update_rate_inv)
  with r show ?case by (rule Cons.IH)
qed

lemma updates_quit:
  "updates evs m = Returns m' \<Longrightarrow> quit m \<Longrightarrow> quit m'"
proof (induction evs arbitrary: m)
  case Nil
  then show ?case by simp
next
  case (Cons ev evs)
  from Cons.prems(1) obtain m1 c where u: "Update (fst ev) (snd ev) m = Returns (m1, c)"
    and r: "updates evs m1 = Returns m'"
    by (rule updates_Cons_Returns)
  from Update_quit [OF u] Cons.prems(2) have "quit m1" by auto
  with r show ?case by (rule Cons.IH)
qed

lemma initialModel_rate_inv:
  "initialModel env now = Returns m \<Longrightarrow> rate_inv (refreshRate m)"
  by (auto simp: initialModel_def Let_def rate_inv_def sint_Second split: outcome.splits sum.splits)

lemma twenty_decrements:
  "updates (replicate 20 (env, KeyMsg ''+'')) (m\<lparr>refreshRate := 1000 * Millisecond\<rparr>)
     = Returns (m\<lparr>refreshRate := 100 * Millisecond\<rparr>)"
  by (simp add: numeral_eq_Suc Millisecond_def word_sless_alt)

lemma collectSystemStats_failing:
  "collectSystemStats env_failing =
     Returns (Inl (Errorf ''failed to collect memory stats''
       (Errorf ''failed to get physical memory'' (SysctlError ''operation not permitted''))))"
  by (simp add: collectSystemStats_def collectMemoryStats_def env_failing_def)

lemma initialModel_failing:
  "initialModel env_failing 0 = Returns
     (model_example\<lparr>lastError := ''Failed to initialize system stats: failed to collect memory stats: failed to get physical memory: operation not permitted''\<rparr>)"
  by (simp add: initialModel_def collectSystemStats_failing model_example_def)

subsection \<open>Ticks\<close>

text \<open>
  C4: on a Tick, when the collection succeeds the statistics are replaced by the new ones
  and \<open>lastError\<close> is emptied; when it fails the statistics stay as they were and
  \<open>lastError\<close> is a message that is not empty; in both cases \<open>lastUpdate\<close> is set to the time
  of the Tick and the command returned is the next Tick after the refresh rate of the
  model.
\<close>

theorem Update_Tick:
  "(collectSystemStats env = Returns (Inr newStats) \<longrightarrow>
      Update env (TickMsg t) m =
        Returns (m\<lparr>stats := newStats, lastError := [], lastUpdate := t\<rparr>, Tick (refreshRate m))) \<and>
   (collectSystemStats env = Returns (Inl err) \<longrightarrow>
      Update env (TickMsg t) m =
        Returns (m\<lparr>lastError := ''Error collecting stats: '' @ Error err, lastUpdate := t\<rparr>,
                 Tick (refreshRate m)) \<and>
      stats (m\<lparr>lastError := ''Error collecting stats: '' @ Error err, lastUpdate := t\<rparr>) = stats m \<and>
      ''Error collecting stats: '' @ Error err \<noteq> [])"
  by (simp add: Let_def)

theorem Update_Tick_witness:
  "collectSystemStats env_example = Returns (Inr stats_example) \<and>
   Update env_example (TickMsg 5) model_example =
     Returns (model_example\<lparr>stats := stats_example, lastError := [], lastUpdate := 5\<rparr>,
              Tick Second) \<and>
   collectSystemStats env_failing =
     Returns (Inl (Errorf ''failed to collect memory stats''
       (Errorf ''failed to get physical memory'' (SysctlError ''operation not permitted'')))) \<and>
   Update env_failing (TickMsg 5) model_example =
     Returns (model_example\<lparr>lastError := ''Error collecting stats: failed to collect memory stats: ''
                  @ ''failed to get physical memory: operation not permitted'',
                lastUpdate := 5\<rparr>, Tick Second)"
  using Update_Tick [of env_example stats_example 5 model_example]
    Update_Tick [where env = env_failing and t = 5 and m = model_example
      and err = "Errorf ''failed to collect memory stats''
        (Errorf ''failed to get physical memory'' (SysctlError ''operation not permitted''))"]
  by (simp add: collectSystemStats_example collectSystemStats_failing)
     (simp add: model_example_def)

subsection \<open>The refresh rate\<close>

text \<open>
  C5: in every model reached from \<open>initialModel\<close> by handling any messages, the refresh rate
  is between 100 ms and 5000 ms; at 100 ms the keys \<open>+\<close> and \<open>=\<close>, and at 5000 ms the keys
  \<open>-\<close> and \<open>_\<close>, return the model unchanged with no command; and from 1000 ms, twenty
  presses of the key that shortens the interval (\<open>+\<close>) leave exactly 100 ms.
\<close>

theorem refreshRate_bounds:
  "(initialModel env0 now = Returns m0 \<and> updates evs m0 = Returns m \<longrightarrow>
      word_sle (100 * Millisecond) (refreshRate m) \<and> word_sle (refreshRate m) (5 * Second)) \<and>
   (refreshRate m1 = 100 * Millisecond \<and> (k1 = ''+'' \<or> k1 = ''='') \<longrightarrow>
      Update env (KeyMsg k1) m1 = Returns (m1, NoCmd)) \<and>
   (refreshRate m2 = 5 * Second \<and> (k2 = ''-'' \<or> k2 = ''_'') \<longrightarrow>
      Update env (KeyMsg k2) m2 = Returns (m2, NoCmd)) \<and>
   (refreshRate m3 = 1000 * Millisecond \<longrightarrow>
      updates (replicate 20 (env, KeyMsg ''+'')) m3
        = Returns (m3\<lparr>refreshRate := 100 * Millisecond\<rparr>))"
proof (intro conjI impI)
  assume a: "initialModel env0 now = Returns m0 \<and> updates evs m0 = Returns m"
  then have "rate_inv (refreshRate m0)" using initialModel_rate_inv by blast
  with a have i: "rate_inv (refreshRate m)" using updates_rate_inv by blast
  from i show "word_sle (100 * Millisecond) (refreshRate m)"
    by (simp add: word_sle_eq sint_100ms rate_inv_def)
  from i show "word_sle (refreshRate m) (5 * Second)"
    by (simp add: word_sle_eq sint_5s rate_inv_def)
next
  assume "refreshRate m1 = 100 * Millisecond \<and> (k1 = ''+'' \<or> k1 = ''='')"
  then show "Update env (KeyMsg k1) m1 = Returns (m1, NoCmd)"
    by (auto simp: word_sless_alt)
next
  assume "refreshRate m2 = 5 * Second \<and> (k2 = ''-'' \<or> k2 = ''_'')"
  then show "Update env (KeyMsg k2) m2 = Returns (m2, NoCmd)"
    by (auto simp: word_sless_alt)
next
  assume "refreshRate m3 = 1000 * Millisecond"
  then have "m3\<lparr>refreshRate := 1000 * Millisecond\<rparr> = m3" by (cases m3) simp
  with twenty_decrements [of env m3]
  show "updates (replicate 20 (env, KeyMsg ''+'')) m3 = Returns (m3\<lparr>refreshRate := 100 * Millisecond\<rparr>)"
    by simp
qed

theorem refreshRate_bounds_witness:
  "initialModel env_failing 0 = Returns model_example \<and>
   updates [(env_failing, KeyMsg ''-''), (env_failing, TickMsg 7)] model_example
     = Returns (model_example\<lparr>refreshRate := 1100 * Millisecond,
         lastError := ''Error collecting stats: failed to collect memory stats: ''
           @ ''failed to get physical memory: operation not permitted'',
         lastUpdate := 7\<rparr>) \<and>
   word_sle (100 * Millisecond) (1100 * Millisecond) \<and>
   word_sle (1100 * Millisecond) (5 * Second) \<and>
   Update env_failing (KeyMsg ''='') (model_example\<lparr>refreshRate := 100 * Millisecond\<rparr>)
     = Returns (model_example\<lparr>refreshRate := 100 * Millisecond\<rparr>, NoCmd) \<and>
   Update env_failing (KeyMsg ''_'') (model_example\<lparr>refreshRate := 5 * Second\<rparr>)
     = Returns (model_example\<lparr>refreshRate := 5 * Second\<rparr>, NoCmd) \<and>
   refreshRate model_example = 1000 * Millisecond \<and>
   updates (replicate 20 (env_failing, KeyMsg ''+'')) model_example
     = Returns (model_example\<lparr>refreshRate := 100 * Millisecond\<rparr>)"
  using refreshRate_bounds [where ?env0.0 = env_failing and now = 0 and ?m0.0 = model_example
      and evs = "[(env_failing, KeyMsg ''-''), (env_failing, TickMsg 7)]"
      and m = "model_example\<lparr>refreshRate := 1100 * Millisecond,
         lastError := ''Error collecting stats: failed to collect memory stats: ''
           @ ''failed to get physical memory: operation not permitted'',
         lastUpdate := 7\<rparr>"
      and ?m1.0 = "model_example\<lparr>refreshRate := 100 * Millisecond\<rparr>" and ?k1.0 = "''=''"
      and ?m2.0 = "model_example\<lparr>refreshRate := 5 * Second\<rparr>" and ?k2.0 = "''_''"
      and ?m3.0 = model_example and env = env_failing]
  by (simp add: initialModel_failing collectSystemStats_failing)
     (simp add: model_example_def Second_def Millisecond_def word_sless_alt)

subsection \<open>Quitting\<close>

text \<open>\<open>Update\<close> never reads \<open>quit\<close>: the flag passes through, set when the command is \<open>tea.Quit\<close>.\<close>

lemma Update_ignores_quit:
  "Update env msg (m\<lparr>quit := b\<rparr>) =
     (case Update env msg m of
        Panic \<Rightarrow> Panic
      | Returns (m1, c1) \<Rightarrow> Returns (m1\<lparr>quit := (c1 = Quit \<or> b)\<rparr>, c1))"
proof (cases msg)
  case (KeyMsg k)
  show ?thesis unfolding KeyMsg by simp
next
  case (TickMsg t)
  show ?thesis unfolding TickMsg
    by (simp add: Let_def split: outcome.splits sum.splits)
next
  case (WindowSizeMsg w h)
  show ?thesis unfolding WindowSizeMsg by simp
next
  case OtherMsg
  show ?thesis unfolding OtherMsg by simp
qed

text \<open>
  C6, as amended: once \<open>quit\<close> is set, every message handled afterwards leaves it set
  (\<open>quit\<close> is terminal), and no further transition is observable: the view of every model
  reached afterwards is the empty string. The other fields can still change, because
  \<open>Update\<close> does not inspect \<open>quit\<close>: it handles a message on a model with the flag set exactly
  as on the same model with the flag clear, the flag apart. A message that sets \<open>quit\<close>
  changes no other field and returns the command \<open>tea.Quit\<close>.
\<close>

theorem quit_is_terminal:
  "(Update env msg m = Returns (m', c) \<longrightarrow>
      (quit m \<longrightarrow> quit m') \<and> (\<not> quit m \<and> quit m' \<longrightarrow> c = Quit \<and> m' = m\<lparr>quit := True\<rparr>)) \<and>
   (quit m \<and> updates evs m = Returns m'' \<longrightarrow> quit m'' \<and> View p m'' = []) \<and>
   Update env msg (m\<lparr>quit := b\<rparr>) =
     (case Update env msg m of
        Panic \<Rightarrow> Panic
      | Returns (m1, c1) \<Rightarrow> Returns (m1\<lparr>quit := (c1 = Quit \<or> b)\<rparr>, c1))"
proof (intro conjI impI)
  assume u: "Update env msg m = Returns (m', c)"
  { assume "quit m" with Update_quit [OF u] show "quit m'" by auto }
  { assume "\<not> quit m \<and> quit m'"
    with Update_quit [OF u] show "c = Quit" and "m' = m\<lparr>quit := True\<rparr>" by auto }
next
  assume a: "quit m \<and> updates evs m = Returns m''"
  then show q: "quit m''" using updates_quit by blast
  then show "View p m'' = []" by (simp add: View_def)
next
  show "Update env msg (m\<lparr>quit := b\<rparr>) =
     (case Update env msg m of
        Panic \<Rightarrow> Panic
      | Returns (m1, c1) \<Rightarrow> Returns (m1\<lparr>quit := (c1 = Quit \<or> b)\<rparr>, c1))"
    by (rule Update_ignores_quit)
qed

text \<open>
  The key \<open>q\<close> sets the flag on a model that did not have it; the key \<open>2\<close> handled afterwards
  keeps it and the view stays empty.
\<close>

theorem quit_is_terminal_witness:
  "Update env_failing (KeyMsg ''q'') model_example = Returns (model_example\<lparr>quit := True\<rparr>, Quit) \<and>
   \<not> quit model_example \<and> quit (model_example\<lparr>quit := True\<rparr>) \<and>
   updates [(env_failing, KeyMsg ''2'')] (model_example\<lparr>quit := True\<rparr>)
     = Returns (model_example\<lparr>quit := True, viewMode := CPUDetailMode\<rparr>) \<and>
   quit (model_example\<lparr>quit := True, viewMode := CPUDetailMode\<rparr>) \<and>
   View printer_example (model_example\<lparr>quit := True, viewMode := CPUDetailMode\<rparr>) = []"
proof -
  have u: "Update env_failing (KeyMsg ''q'') model_example
      = Returns (model_example\<lparr>quit := True\<rparr>, Quit)"
    by simp
  have nq: "\<not> quit model_example" by (simp add: model_example_def)
  have q: "quit (model_example\<lparr>quit := True\<rparr>)" by simp
  have r: "updates [(env_failing, KeyMsg ''2'')] (model_example\<lparr>quit := True\<rparr>)
      = Returns (model_example\<lparr>quit := True, viewMode := CPUDetailMode\<rparr>)"
    by simp
  have "quit (model_example\<lparr>quit := True, viewMode := CPUDetailMode\<rparr>) \<and>
     View printer_example (model_example\<lparr>quit := True, viewMode := CPUDetailMode\<rparr>) = []"
    by (rule quit_is_terminal [of env_failing "KeyMsg ''q''" "model_example\<lparr>quit := True\<rparr>"
          _ _ "[(env_failing, KeyMsg ''2'')]" _ printer_example True,
          THEN conjunct2, THEN conjunct1, THEN mp, OF conjI [OF q r]])
  with u nq q r show ?thesis by (intro conjI) simp_all
qed

text \<open>
  C6 as stated fails: a model with \<open>quit\<close> set that is handed the key \<open>2\<close> changes its view
  mode.
\<close>

theorem quit_not_terminal_counterexample:
  "quit (model_example\<lparr>quit := True\<rparr>) \<and>
   Update env_failing (KeyMsg ''2'') (model_example\<lparr>quit := True\<rparr>)
     = Returns (model_example\<lparr>quit := True, viewMode := CPUDetailMode\<rparr>, NoCmd) \<and>
   viewMode (model_example\<lparr>quit := True, viewMode := CPUDetailMode\<rparr>)
     \<noteq> viewMode (model_example\<lparr>quit := True\<rparr>)"
  by (simp add: model_example_def)

subsection \<open>The view of a model that has quit\<close>

text \<open>
  C10: when \<open>quit\<close> is set, \<open>View\<close> returns the empty string, whatever the other fields and
  the formatting functions are.
\<close>

theorem View_quit_empty: "quit m \<Longrightarrow> View p m = []"
  by (simp add: View_def)

theorem View_quit_empty_witness:
  "quit (model_example\<lparr>quit := True\<rparr>) \<and> View printer_example (model_example\<lparr>quit := True\<rparr>) = []"
  using View_quit_empty [of "model_example\<lparr>quit := True\<rparr>" printer_example] by simp

end
